theory Spec2Isabelle
  imports Complex_Main "HOL-Library.Sublist"
begin

section \<open>Python text\<close>

text \<open>
  A Python \<open>str\<close> is a sequence of Unicode code points, so text is a list of naturals.
  ASCII literals of the source are written as HOL strings and converted by \<open>str\<close>;
  code points beyond the printable ASCII range are written as numbers.
\<close>

type_synonym ustr = "nat list"

definition str :: "string \<Rightarrow> ustr" where
  "str s = map of_char s"

text \<open>\<open>str.isspace\<close> on one code point: the white-space table of CPython.\<close>

definition isspace :: "nat \<Rightarrow> bool" where
  "isspace c \<longleftrightarrow>
     (9 \<le> c \<and> c \<le> 13) \<or> (28 \<le> c \<and> c \<le> 32) \<or> c = 133 \<or> c = 160 \<or> c = 5760 \<or>
     (8192 \<le> c \<and> c \<le> 8202) \<or> c = 8232 \<or> c = 8233 \<or> c = 8239 \<or> c = 8287 \<or> c = 12288"

text \<open>\<open>s.strip()\<close>: white space removed at both ends.\<close>

definition strip :: "ustr \<Rightarrow> ustr" where
  "strip s = rev (dropWhile isspace (rev (dropWhile isspace s)))"

text \<open>
  \<open>s.lower()\<close> on the ASCII letters. Other code points are left as they are: no code
  point beyond ASCII lower-cases to a character of \<open>.pdf\<close> or \<open>.docx\<close>, the only
  texts a lower-cased suffix is compared with.
\<close>

definition lower :: "ustr \<Rightarrow> ustr" where
  "lower s = map (\<lambda>c. if 65 \<le> c \<and> c \<le> 90 then c + 32 else c) s"

text \<open>\<open>sep.join(xs)\<close>.\<close>

fun join :: "'a list \<Rightarrow> 'a list list \<Rightarrow> 'a list" where
  "join sep [] = []"
| "join sep [x] = x"
| "join sep (x # y # ys) = x @ sep @ join sep (y # ys)"

text \<open>\<open>s.split(c)\<close> for a separator of one character.\<close>

fun split_on :: "'a \<Rightarrow> 'a list \<Rightarrow> 'a list list" where
  "split_on c [] = [[]]"
| "split_on c (x # xs) =
     (if x = c then [] # split_on c xs
      else (case split_on c xs of [] \<Rightarrow> [[x]] | p # ps \<Rightarrow> (x # p) # ps))"

text \<open>\<open>s.rfind(c)\<close>: the last index of \<open>c\<close>, or \<open>-1\<close>.\<close>

definition rfind :: "'a \<Rightarrow> 'a list \<Rightarrow> int" where
  "rfind c s =
     (if c \<in> set s then int (length s) - 1 - int (length (takeWhile (\<lambda>x. x \<noteq> c) (rev s)))
      else - 1)"

section \<open>Exceptions\<close>

text \<open>
  A raised exception is a value: its class name and \<open>str(e)\<close>. Every exception of the
  model is an instance of \<open>Exception\<close>, so \<open>except Exception\<close> catches it. For the
  exceptions whose text the program never reads (those of \<open>int\<close>, of \<open>/\<close> and of the
  JSON decoder) \<open>exn_str\<close> keeps the fixed leading part of the message only.
\<close>

datatype exn = Exn (exn_class: string) (exn_str: ustr)

section \<open>JSON values\<close>

text \<open>
  What \<open>json.loads\<close> returns and \<open>jsonify\<close> serialises. A \<open>dict\<close> is an association
  list in insertion order with distinct keys; a float is kept as its lexeme.
\<close>

datatype json =
    JNull
  | JBool bool
  | JInt int
  | JFloat ustr
  | JString ustr
  | JArray "json list"
  | JObject "(ustr \<times> json) list"

text \<open>\<open>d[k] = v\<close>: a key already present keeps its place and takes the new value.\<close>

fun dict_set :: "ustr \<Rightarrow> json \<Rightarrow> (ustr \<times> json) list \<Rightarrow> (ustr \<times> json) list" where
  "dict_set k v [] = [(k, v)]"
| "dict_set k v ((k', v') # kvs) =
     (if k = k' then (k, v) # kvs else (k', v') # dict_set k v kvs)"

subsection \<open>The decoder of the standard library\<close>

text \<open>
  \<open>json.loads\<close> on a \<open>str\<close>, after the scanner of CPython: JSON with the constants
  \<open>NaN\<close>, \<open>Infinity\<close> and \<open>-Infinity\<close>, strict strings, the last value of a repeated
  key. The limits of the interpreter (recursion depth, digits of an integer) are not
  part of it; this is why the environment below carries the decoder as a field, and
  this function serves as its instance on concrete replies. The recursion is on a step
  count that \<open>json_loads\<close> sets above the number of calls any text of that length needs.
\<close>

definition json_error :: "ustr \<Rightarrow> exn + 'a" where
  "json_error m = Inl (Exn ''JSONDecodeError'' m)"

definition skip_ws :: "ustr \<Rightarrow> ustr" where
  "skip_ws = dropWhile (\<lambda>c. c = 32 \<or> c = 9 \<or> c = 10 \<or> c = 13)"

definition hexval :: "nat \<Rightarrow> nat option" where
  "hexval c =
     (if 48 \<le> c \<and> c \<le> 57 then Some (c - 48)
      else if 97 \<le> c \<and> c \<le> 102 then Some (c - 87)
      else if 65 \<le> c \<and> c \<le> 70 then Some (c - 55)
      else None)"

definition hex4 :: "ustr \<Rightarrow> nat option" where
  "hex4 cs =
     (case map hexval (take 4 cs) of
        [Some a, Some b, Some c, Some d] \<Rightarrow> Some (((a * 16 + b) * 16 + c) * 16 + d)
      | _ \<Rightarrow> None)"

definition unescape :: "nat \<Rightarrow> nat option" where
  "unescape c =
     (if c = 34 then Some 34 else if c = 92 then Some 92 else if c = 47 then Some 47
      else if c = 98 then Some 8 else if c = 102 then Some 12 else if c = 110 then Some 10
      else if c = 114 then Some 13 else if c = 116 then Some 9 else None)"

text \<open>The text of a string literal, from the character after the opening quote.\<close>

fun scanstring :: "ustr \<Rightarrow> ustr \<Rightarrow> exn + (ustr \<times> ustr)" where
  "scanstring [] acc = json_error (str ''Unterminated string starting at'')"
| "scanstring (c # cs) acc =
     (if c = 34 then Inr (acc, cs)
      else if c = 92 then
        (case cs of
           [] \<Rightarrow> json_error (str ''Unterminated string starting at'')
         | e # es \<Rightarrow>
             if e = 117 then
               (case (if length es \<le> 4 then None else hex4 es) of
                  None \<Rightarrow> json_error (str ''Invalid '' @ [92] @ str ''uXXXX escape'')
                | Some u \<Rightarrow>
                    if 55296 \<le> u \<and> u \<le> 56319 \<and> 10 < length es \<and> take 2 (drop 4 es) = [92, 117]
                    then
                      (case hex4 (drop 6 es) of
                         None \<Rightarrow> json_error (str ''Invalid '' @ [92] @ str ''uXXXX escape'')
                       | Some l \<Rightarrow>
                           if 56320 \<le> l \<and> l \<le> 57343
                           then scanstring (drop 10 es)
                                  (acc @ [65536 + (u - 55296) * 1024 + (l - 56320)])
                           else scanstring (drop 4 es) (acc @ [u]))
                    else scanstring (drop 4 es) (acc @ [u]))
             else
               (case unescape e of
                  None \<Rightarrow> json_error (str ''Invalid '' @ [92] @ str ''escape'')
                | Some x \<Rightarrow> scanstring es (acc @ [x])))
      else if c < 32 then json_error (str ''Invalid control character at'')
      else scanstring cs (acc @ [c]))"

definition is_digit :: "nat \<Rightarrow> bool" where
  "is_digit c \<longleftrightarrow> 48 \<le> c \<and> c \<le> 57"

definition digits_value :: "ustr \<Rightarrow> nat" where
  "digits_value ds = foldl (\<lambda>n c. 10 * n + (c - 48)) 0 ds"

text \<open>
  The longest match of \<open>-?(0|[1-9][0-9]*)(\.[0-9]+)?([eE][-+]?[0-9]+)?\<close> at the head
  of the text, read group by group: an integer when there is neither fraction nor
  exponent, a float otherwise.
\<close>

definition match_exponent :: "ustr \<Rightarrow> (ustr \<times> ustr) option" where
  "match_exponent cs =
     (case cs of
        [] \<Rightarrow> None
      | e # r \<Rightarrow>
          if e = 101 \<or> e = 69 then
            (case r of
               [] \<Rightarrow> None
             | g # r' \<Rightarrow>
                 if (g = 43 \<or> g = 45) \<and> takeWhile is_digit r' \<noteq> []
                 then Some ([e, g] @ takeWhile is_digit r', dropWhile is_digit r')
                 else if takeWhile is_digit r \<noteq> []
                 then Some (e # takeWhile is_digit r, dropWhile is_digit r)
                 else None)
          else None)"

definition scan_exponent :: "ustr \<Rightarrow> ustr \<Rightarrow> ustr \<Rightarrow> ustr \<Rightarrow> json \<times> ustr" where
  "scan_exponent sign ipart fpart cs =
     (case match_exponent cs of
        Some (ex, rest) \<Rightarrow> (JFloat (sign @ ipart @ fpart @ ex), rest)
      | None \<Rightarrow>
          if fpart = []
          then (JInt ((if sign = [] then 1 else - 1) * int (digits_value ipart)), cs)
          else (JFloat (sign @ ipart @ fpart), cs))"

definition scan_fraction :: "ustr \<Rightarrow> ustr \<Rightarrow> ustr \<Rightarrow> json \<times> ustr" where
  "scan_fraction sign ipart cs =
     (if take 1 cs = [46] \<and> takeWhile is_digit (drop 1 cs) \<noteq> []
      then scan_exponent sign ipart (46 # takeWhile is_digit (drop 1 cs))
             (dropWhile is_digit (drop 1 cs))
      else scan_exponent sign ipart [] cs)"

definition scan_integer :: "ustr \<Rightarrow> ustr \<Rightarrow> (json \<times> ustr) option" where
  "scan_integer sign cs =
     (if take 1 cs = [48] then Some (scan_fraction sign [48] (drop 1 cs))
      else if takeWhile is_digit cs = [] then None
      else Some (scan_fraction sign (takeWhile is_digit cs) (dropWhile is_digit cs)))"

definition scan_number :: "ustr \<Rightarrow> (json \<times> ustr) option" where
  "scan_number cs =
     (if take 1 cs = [45] then scan_integer [45] (drop 1 cs) else scan_integer [] cs)"

definition out_of_steps :: "exn + 'a" where
  "out_of_steps = Inl (Exn ''RecursionError'' (str ''maximum recursion depth exceeded''))"

fun decode_value :: "nat \<Rightarrow> ustr \<Rightarrow> exn + (json \<times> ustr)"
  and decode_array :: "nat \<Rightarrow> json list \<Rightarrow> ustr \<Rightarrow> exn + (json \<times> ustr)"
  and decode_object :: "nat \<Rightarrow> (ustr \<times> json) list \<Rightarrow> ustr \<Rightarrow> exn + (json \<times> ustr)"
where
  "decode_value 0 cs = out_of_steps"
| "decode_value (Suc n) cs =
     (case cs of
        [] \<Rightarrow> json_error (str ''Expecting value'')
      | c # r \<Rightarrow>
          if c = 34 then
            (case scanstring r [] of Inl e \<Rightarrow> Inl e | Inr (s, r') \<Rightarrow> Inr (JString s, r'))
          else if c = 123 then
            (let r1 = skip_ws r
             in if take 1 r1 = [125] then Inr (JObject [], drop 1 r1) else decode_object n [] r1)
          else if c = 91 then
            (let r1 = skip_ws r
             in if take 1 r1 = [93] then Inr (JArray [], drop 1 r1) else decode_array n [] r1)
          else if take 4 cs = str ''null'' then Inr (JNull, drop 4 cs)
          else if take 4 cs = str ''true'' then Inr (JBool True, drop 4 cs)
          else if take 5 cs = str ''false'' then Inr (JBool False, drop 5 cs)
          else
            (case scan_number cs of
               Some res \<Rightarrow> Inr res
             | None \<Rightarrow>
                 if take 3 cs = str ''NaN'' then Inr (JFloat (str ''NaN''), drop 3 cs)
                 else if take 8 cs = str ''Infinity''
                 then Inr (JFloat (str ''Infinity''), drop 8 cs)
                 else if take 9 cs = str ''-Infinity''
                 then Inr (JFloat (str ''-Infinity''), drop 9 cs)
                 else json_error (str ''Expecting value'')))"
| "decode_array 0 acc cs = out_of_steps"
| "decode_array (Suc n) acc cs =
     (case decode_value n cs of
        Inl e \<Rightarrow> Inl e
      | Inr (v, r) \<Rightarrow>
          let r1 = skip_ws r
          in if take 1 r1 = [93] then Inr (JArray (acc @ [v]), drop 1 r1)
             else if take 1 r1 = [44] then decode_array n (acc @ [v]) (skip_ws (drop 1 r1))
             else json_error (str ''Expecting '' @ [39, 44, 39] @ str '' delimiter''))"
| "decode_object 0 acc cs = out_of_steps"
| "decode_object (Suc n) acc cs =
     (if take 1 cs \<noteq> [34]
      then json_error (str ''Expecting property name enclosed in double quotes'')
      else
        (case scanstring (drop 1 cs) [] of
           Inl e \<Rightarrow> Inl e
         | Inr (k, r) \<Rightarrow>
             let r1 = skip_ws r
             in if take 1 r1 \<noteq> [58] then json_error (str ''Expecting '' @ [39, 58, 39] @ str '' delimiter'')
                else
                  (case decode_value n (skip_ws (drop 1 r1)) of
                     Inl e \<Rightarrow> Inl e
                   | Inr (v, r2) \<Rightarrow>
                       let r3 = skip_ws r2
                       in if take 1 r3 = [125] then Inr (JObject (dict_set k v acc), drop 1 r3)
                          else if take 1 r3 = [44]
                          then decode_object n (dict_set k v acc) (skip_ws (drop 1 r3))
                          else json_error (str ''Expecting '' @ [39, 44, 39] @ str '' delimiter''))))"

definition json_loads :: "ustr \<Rightarrow> exn + json" where
  "json_loads s =
     (if take 1 s = [65279] then json_error (str ''Unexpected UTF-8 BOM (decode using utf-8-sig)'')
      else
        (case decode_value (2 * length s + 2) (skip_ws s) of
           Inl e \<Rightarrow> Inl e
         | Inr (v, r) \<Rightarrow> if skip_ws r = [] then Inr v else json_error (str ''Extra data'')))"

section \<open>Paths\<close>

text \<open>
  A \<open>pathlib.Path\<close> of a POSIX system: the root (\<open>''\<close>, \<open>/\<close> or \<open>//\<close>) and the
  components, where empty components and \<open>.\<close> are dropped when the path is made.
\<close>

datatype path = Path (root: ustr) (parts: "ustr list")

definition path_of :: "ustr \<Rightarrow> path" where
  "path_of s =
     Path (if take 2 s = [47, 47] \<and> take 3 s \<noteq> [47, 47, 47] then [47, 47]
           else if take 1 s = [47] then [47] else [])
          (filter (\<lambda>p. p \<noteq> [] \<and> p \<noteq> [46]) (split_on 47 s))"

text \<open>\<open>p / name\<close>: a rooted right operand replaces the left one.\<close>

definition path_join :: "path \<Rightarrow> ustr \<Rightarrow> path" where
  "path_join p name =
     (if root (path_of name) \<noteq> [] then path_of name
      else Path (root p) (parts p @ parts (path_of name)))"

definition path_name :: "path \<Rightarrow> ustr" where
  "path_name p = (if parts p = [] then [] else last (parts p))"

text \<open>\<open>p.suffix\<close>: the final component from its last dot, unless that dot is first or last.\<close>

definition path_suffix :: "path \<Rightarrow> ustr" where
  "path_suffix p =
     (if 0 < rfind 46 (path_name p) \<and> rfind 46 (path_name p) < int (length (path_name p)) - 1
      then drop (nat (rfind 46 (path_name p))) (path_name p)
      else [])"

definition UPLOAD_FOLDER :: path where
  "UPLOAD_FOLDER = path_of (str ''uploads'')"

section \<open>The world outside the program\<close>

text \<open>
  What the libraries and the operating system decide is a parameter of the model:
  \<^item> \<open>fitz_open\<close>: the texts of the pages of the PDF at a path, given the bytes stored
    there (\<open>None\<close> when no file is there), or the exception \<open>fitz.open\<close> or
    \<open>get_text\<close> raises;
  \<^item> \<open>docx_Document\<close>: likewise the texts of the paragraphs of a DOCX file;
  \<^item> \<open>save_error\<close>: the exception of \<open>FileStorage.save\<close> at a path the system refuses
    to write (a directory, a missing parent), in which case no file is made;
  \<^item> \<open>chat\<close>: the content of the reply of the model to a prompt (it may be \<open>None\<close>),
    or the exception of the call;
  \<^item> \<open>loads\<close>: \<open>json.loads\<close>;
  \<^item> \<open>float_str\<close>: the text \<open>str\<close> gives the float nearest to a rational;
  \<^item> \<open>unicode_decimal\<close>: the decimal value of a code point beyond ASCII in the Unicode
    tables of the interpreter;
  \<^item> \<open>int_max_str_digits\<close>: the limit on the digits of an integer literal (0: none).
\<close>

record 'b env =
  fitz_open :: "path \<Rightarrow> 'b option \<Rightarrow> exn + ustr list"
  docx_Document :: "path \<Rightarrow> 'b option \<Rightarrow> exn + ustr list"
  save_error :: "path \<Rightarrow> exn option"
  chat :: "ustr \<Rightarrow> exn + ustr option"
  loads :: "ustr \<Rightarrow> exn + json"
  float_str :: "rat \<Rightarrow> ustr"
  unicode_decimal :: "nat \<Rightarrow> nat option"
  int_max_str_digits :: nat

section \<open>Built-in conversions\<close>

text \<open>
  \<open>int(s)\<close> on a \<open>str\<close>. Code points beyond ASCII are first replaced: white space by a
  blank, a decimal digit by its ASCII digit, anything else by \<open>?\<close>. The literal is then
  read in base 10: blanks around it, a sign, digits with single underscores between them.
\<close>

definition to_ascii :: "(nat \<Rightarrow> nat option) \<Rightarrow> nat \<Rightarrow> nat" where
  "to_ascii dec c =
     (if c < 127 then c
      else if isspace c then 32
      else (case dec c of Some d \<Rightarrow> 48 + d | None \<Rightarrow> 63))"

definition ascii_space :: "nat \<Rightarrow> bool" where
  "ascii_space c \<longleftrightarrow> (9 \<le> c \<and> c \<le> 13) \<or> c = 32"

fun double_underscore :: "ustr \<Rightarrow> bool" where
  "double_underscore (x # y # ys) = ((x = 95 \<and> y = 95) \<or> double_underscore (y # ys))"
| "double_underscore _ = False"

definition invalid_literal :: "exn + 'a" where
  "invalid_literal = Inl (Exn ''ValueError'' (str ''invalid literal for int() with base 10: ''))"

definition int_value :: "nat \<Rightarrow> int \<Rightarrow> ustr \<Rightarrow> ustr \<Rightarrow> exn + int" where
  "int_value limit sg body rest =
     (if body = [] \<or> hd body = 95 \<or> last body = 95 \<or> double_underscore body
      then invalid_literal
      else if 640 < length (filter is_digit body) \<and> 0 < limit \<and>
              limit < length (filter is_digit body)
      then Inl (Exn ''ValueError'' (str ''Exceeds the limit''))
      else if dropWhile ascii_space rest \<noteq> [] then invalid_literal
      else Inr (sg * int (digits_value (filter is_digit body))))"

definition int_digits :: "nat \<Rightarrow> int \<Rightarrow> ustr \<Rightarrow> exn + int" where
  "int_digits limit sg t =
     int_value limit sg (takeWhile (\<lambda>c. is_digit c \<or> c = 95) t)
       (dropWhile (\<lambda>c. is_digit c \<or> c = 95) t)"

definition int_literal :: "nat \<Rightarrow> ustr \<Rightarrow> exn + int" where
  "int_literal limit t =
     (if take 1 t = [45] then int_digits limit (- 1) (drop 1 t)
      else if take 1 t = [43] then int_digits limit 1 (drop 1 t)
      else int_digits limit 1 t)"

definition py_int :: "'b env \<Rightarrow> ustr \<Rightarrow> exn + int" where
  "py_int env s =
     int_literal (int_max_str_digits env)
       (dropWhile ascii_space (map (to_ascii (unicode_decimal env)) s))"

text \<open>
  \<open>a / b\<close> on integers makes the float nearest to the quotient, and raises when that
  float would be infinite. The model keeps the exact quotient; rounding to a float is
  monotone and fixes 0 and 1, so it does not move a value across these bounds.
\<close>

definition float_overflow :: rat where
  "float_overflow = 2 ^ 1024 - 2 ^ 970"

definition truediv :: "int \<Rightarrow> int \<Rightarrow> exn + rat" where
  "truediv a b =
     (if b = 0 then Inl (Exn ''ZeroDivisionError'' (str ''division by zero''))
      else if float_overflow \<le> \<bar>of_int a / of_int b\<bar>
      then Inl (Exn ''OverflowError'' (str ''integer division result too large for a float''))
      else Inr (of_int a / of_int b))"

text \<open>\<open>str(n)\<close> for a natural number.\<close>

fun nat_str :: "nat \<Rightarrow> ustr" where
  "nat_str n = (if n < 10 then [48 + n] else nat_str (n div 10) @ [48 + n mod 10])"

declare nat_str.simps [simp del]

section \<open>Extracting text\<close>

text \<open>
  \<open>extract_text\<close>, on the files of the upload directory. The result \<open>None\<close> is the
  Python \<open>None\<close> returned for a suffix that is neither \<open>.pdf\<close> nor \<open>.docx\<close>.
\<close>

definition extract_text :: "'b env \<Rightarrow> (path \<rightharpoonup> 'b) \<Rightarrow> path \<Rightarrow> exn + ustr option" where
  "extract_text env fs file_path =
     (if lower (path_suffix file_path) = str ''.pdf'' then
        (case fitz_open env file_path (fs file_path) of
           Inl e \<Rightarrow> Inl e
         | Inr pages \<Rightarrow> Inr (Some (foldl (\<lambda>text page. text @ page) [] pages)))
      else if lower (path_suffix file_path) = str ''.docx'' then
        (case docx_Document env file_path (fs file_path) of
           Inl e \<Rightarrow> Inl e
         | Inr paragraphs \<Rightarrow> Inr (Some (join [10] paragraphs)))
      else Inr None)"

section \<open>Prompt and reply\<close>

text \<open>
  The literal parts of the f-string of \<open>validate_text\<close>, between its fields, and the
  texts of the messages of the handler. Line ends are the code point 10.
\<close>

definition prompt_head :: ustr where
  \<open>prompt_head =
     [10] @
     str ''You are an expert document validator that only responds in arabic.'' @ [10] @
     [10] @
     str ''The user supplied:'' @ [10] @
     str ''1. Validation requirements (mandatory)'' @ [10] @
     str ''2. Optional examples of valid documents'' @ [10] @
     str ''3. Optional examples of invalid documents'' @ [10] @
     [10] @
     str ''Your task is to evaluate the document denoted by " at the start and end leniently:'' @
       [10] @
     str ''- Consider a requirement satisfied if it is mostly present.'' @ [10] @
     str ''- Only mark it missing if it is completely absent or clearly incorrect.'' @ [10] @
     str ''- If its missing give it a 0.'' @ [10] @
     str ''- Minor deviations, paraphrasing, or partial content are acceptable.'' @ [10] @
     [10] @
     str ''=================================================='' @ [10] @
     [128221] @ str '' VALIDATION REQUIREMENTS'' @ [10] @
     str ''=================================================='' @ [10]\<close>

definition prompt_valid_header :: ustr where
  \<open>prompt_valid_header =
     [10] @
     [10] @
     str ''=================================================='' @ [10] @
     [128994] @ str '' VALID EXAMPLES (optional)'' @ [10] @
     str ''=================================================='' @ [10]\<close>

definition prompt_invalid_header :: ustr where
  \<open>prompt_invalid_header =
     [10] @
     [10] @
     str ''=================================================='' @ [10] @
     [128308] @ str '' INVALID EXAMPLES (optional)'' @ [10] @
     str ''=================================================='' @ [10]\<close>

definition prompt_document_header :: ustr where
  \<open>prompt_document_header =
     [10] @
     [10] @
     str ''=================================================='' @ [10] @
     [128196] @ str '' DOCUMENT TO VALIDATE'' @ [10] @
     str ''=================================================='' @ [10]\<close>

definition prompt_rules :: ustr where
  \<open>prompt_rules =
     [10] @
     [10] @
     str ''=================================================='' @ [10] @
     [127919] @ str '' VALIDATION RULES'' @ [10] @
     str ''=================================================='' @ [10] @
     [8226] @ str '' Compare the document strictly against the user's requirements.'' @ [10] @
     [8226] @ str '' Score each requirement:'' @ [10] @
     str ''  - 1 point = clearly satisfied.'' @ [10] @
     str ''  - 0 = missing or unclear.'' @ [10] @
     [10] @
     [8226] @ str '' Final decision:'' @ [10] @
     str '' - Score each requirement between 0 (missing) and 1 (fully satisfied)'' @ [10] @
     str '' - Compute overall score = average of all requirement scores'' @ [10] @
     str '' - Mark document as "valid" if overall score >= ''\<close>

definition prompt_tail :: ustr where
  \<open>prompt_tail =
     [10] @
     str '' - Include reasons explaining any missing or partially satisfied requirements'' @
       [10] @
     str ''Output format (strict JSON):'' @ [10] @
     str ''{'' @ [10] @
     str ''  "valid": true/false,'' @ [10] @
     str ''  "reasons": ["reason 1", "reason 2", ...]'' @ [10] @
     str ''}'' @ [10] @
     str ''If valid, include one reason that is just your score such as "'' @
       [1575, 1604, 1608, 1579, 1610, 1602, 1577, 32, 1589, 1581, 1610, 1581, 1577, 32, 1576, 1606, 1587, 1576, 1577] @ str '' **%"'' @ [10]\<close>

definition NO_VALID_EXAMPLES :: ustr where
  \<open>NO_VALID_EXAMPLES =
     [1604, 1575, 32, 1578, 1608, 1580, 1583, 32, 1571, 1605, 1579, 1604, 1577, 32, 1589, 1575,
      1604, 1581, 1577, 46]\<close>

definition NO_INVALID_EXAMPLES :: ustr where
  \<open>NO_INVALID_EXAMPLES =
     [1604, 1575, 32, 1578, 1608, 1580, 1583, 32, 1571, 1605, 1579, 1604, 1577, 32, 1594, 1610,
      1585, 32, 1589, 1575, 1604, 1581, 1577, 46]\<close>

definition MSG_INVALID_JSON :: ustr where
  \<open>MSG_INVALID_JSON =
     str ''Invalid JSON returned from model''\<close>

definition MSG_NO_REQUIREMENTS :: ustr where
  \<open>MSG_NO_REQUIREMENTS =
     [1604, 1605, 32, 1610, 1578, 1605, 32, 1573, 1583, 1582, 1575, 1604, 32, 1605, 1578, 1591,
      1604, 1576, 1575, 1578, 32, 1575, 1604, 1578, 1581, 1602, 1602, 46]\<close>

definition MSG_NO_DOCUMENT :: ustr where
  \<open>MSG_NO_DOCUMENT =
     [1604, 1605, 32, 1610, 1578, 1605, 32, 1585, 1601, 1593, 32, 1575, 1604, 1605, 1587, 1578,
      1606, 1583, 32, 1575, 1604, 1605, 1585, 1575, 1583, 32, 1575, 1604, 1578, 1581, 1602,
      1602, 32, 1605, 1606, 1607, 46]\<close>

definition MSG_VALID_EXAMPLE :: ustr where
  \<open>MSG_VALID_EXAMPLE =
     [1582, 1591, 1571, 32, 1571, 1579, 1606, 1575, 1569, 32, 1605, 1593, 1575, 1604, 1580,
      1577, 32, 1605, 1579, 1575, 1604, 32, 1589, 1581, 1610, 1581, 58, 32]\<close>

definition MSG_INVALID_EXAMPLE :: ustr where
  \<open>MSG_INVALID_EXAMPLE =
     [1582, 1591, 1571, 32, 1571, 1579, 1606, 1575, 1569, 32, 1605, 1593, 1575, 1604, 1580,
      1577, 32, 1605, 1579, 1575, 1604, 32, 1594, 1610, 1585, 32, 1589, 1581, 1610, 1581,
      58, 32]\<close>

definition MSG_DOCUMENT :: ustr where
  \<open>MSG_DOCUMENT =
     [1578, 1593, 1584, 1585, 32, 1602, 1585, 1575, 1569, 1577, 32, 1575, 1604, 1605, 1587,
      1578, 1606, 1583, 58, 32]\<close>

text \<open>A formatted field \<open>{x}\<close> of an f-string, for \<open>x\<close> a \<open>str\<close> or \<open>None\<close>.\<close>

definition format_field :: "ustr option \<Rightarrow> ustr" where
  "format_field x = (case x of None \<Rightarrow> str ''None'' | Some s \<Rightarrow> s)"

text \<open>The f-string of \<open>validate_text\<close>; \<open>x or y\<close> on a \<open>str\<close> takes \<open>y\<close> when \<open>x\<close> is empty.\<close>

definition prompt_of :: "'b env \<Rightarrow> ustr \<Rightarrow> ustr \<Rightarrow> ustr \<Rightarrow> ustr option \<Rightarrow> rat \<Rightarrow> ustr" where
  "prompt_of env requirements valid_examples invalid_examples document_text precent =
     prompt_head @ requirements @
     prompt_valid_header @
     (if valid_examples = [] then NO_VALID_EXAMPLES else valid_examples) @
     prompt_invalid_header @
     (if invalid_examples = [] then NO_INVALID_EXAMPLES else invalid_examples) @
     prompt_document_header @ [34] @ format_field document_text @ [34] @
     prompt_rules @ float_str env precent @ prompt_tail"

text \<open>A verdict as the handler builds it: a \<open>dict\<close> with the keys \<open>valid\<close> and \<open>reasons\<close>.\<close>

definition verdict :: "bool \<Rightarrow> ustr list \<Rightarrow> json" where
  "verdict v reasons =
     JObject [(str ''valid'', JBool v), (str ''reasons'', JArray (map JString reasons))]"

text \<open>
  The \<open>try\<close> around \<open>json.loads(content)\<close>: any exception gives the fixed verdict.
  \<open>json.loads(None)\<close> raises \<open>TypeError\<close>.
\<close>

definition decode_reply :: "'b env \<Rightarrow> ustr option \<Rightarrow> json" where
  "decode_reply env content =
     (case content of
        None \<Rightarrow> verdict False [MSG_INVALID_JSON]
      | Some c \<Rightarrow>
          (case loads env c of
             Inl e \<Rightarrow> verdict False [MSG_INVALID_JSON]
           | Inr v \<Rightarrow> v))"

text \<open>\<open>validate_text\<close> without the store: an exception of \<open>chat\<close> is not caught.\<close>

definition validate_text ::
  "'b env \<Rightarrow> ustr \<Rightarrow> ustr \<Rightarrow> ustr \<Rightarrow> ustr option \<Rightarrow> rat \<Rightarrow> exn + json" where
  "validate_text env requirements valid_examples invalid_examples document_text precent =
     (case chat env
             (prompt_of env requirements valid_examples invalid_examples document_text precent) of
        Inl e \<Rightarrow> Inl e
      | Inr content \<Rightarrow> Inr (decode_reply env content))"

section \<open>The request handler\<close>

text \<open>
  The upload directory is a map from paths to file contents; the trace lists the
  effects of the handler in order. A \<open>FileStorage\<close> is a file name and its content, and
  is false when its name is empty. \<open>request.form\<close> and \<open>request.files\<close> are multi-dicts:
  \<open>get\<close> takes the first value of a key, \<open>getlist\<close> all of them.
\<close>

datatype event = Saved path | Extracted path | Unlinked path | Prompted ustr

record 'b store =
  files :: "path \<rightharpoonup> 'b"
  trace :: "event list"

record 'b upload =
  filename :: ustr
  content :: 'b

record 'b request =
  form :: "(ustr \<times> ustr) list"
  uploads :: "(ustr \<times> 'b upload) list"

record response =
  status :: nat
  body :: json

definition form_get :: "(ustr \<times> ustr) list \<Rightarrow> ustr \<Rightarrow> ustr \<Rightarrow> ustr" where
  "form_get m k d = (case map_of m k of None \<Rightarrow> d | Some v \<Rightarrow> v)"

definition getlist :: "(ustr \<times> 'a) list \<Rightarrow> ustr \<Rightarrow> 'a list" where
  "getlist m k = map snd (filter (\<lambda>kv. fst kv = k) m)"

definition has_key :: "(ustr \<times> 'a) list \<Rightarrow> ustr \<Rightarrow> bool" where
  "has_key m k \<longleftrightarrow> k \<in> set (map fst m)"

definition log :: "event \<Rightarrow> 'b store \<Rightarrow> 'b store" where
  "log ev s = s\<lparr>trace := trace s @ [ev]\<rparr>"

text \<open>\<open>f.save(str(path))\<close>.\<close>

definition save :: "'b env \<Rightarrow> 'b upload \<Rightarrow> path \<Rightarrow> 'b store \<Rightarrow> exn + 'b store" where
  "save env f p s =
     (case save_error env p of
        Some e \<Rightarrow> Inl e
      | None \<Rightarrow> Inr (log (Saved p) (s\<lparr>files := (files s)(p \<mapsto> content f)\<rparr>)))"

text \<open>\<open>path.unlink(missing_ok=True)\<close>.\<close>

definition unlink :: "path \<Rightarrow> 'b store \<Rightarrow> 'b store" where
  "unlink p s = log (Unlinked p) (s\<lparr>files := (files s)(p := None)\<rparr>)"

definition json_response :: "nat \<Rightarrow> json \<Rightarrow> response" where
  "json_response code v = \<lparr>status = code, body = v\<rparr>"

text \<open>
  The loop over one set of examples (lines 144 to 156 and 159 to 171), with the text
  gathered so far. It ends with the response of the \<open>except\<close> branch or with the text.
  \<open>None + "..."\<close> raises \<open>TypeError\<close>, which that branch catches like any other.
\<close>

definition none_plus_str :: exn where
  "none_plus_str =
     Exn ''TypeError''
       (str ''unsupported operand type(s) for +: '' @ [39] @ str ''NoneType'' @ [39] @
        str '' and '' @ [39] @ str ''str'' @ [39])"

fun process_examples ::
  "'b env \<Rightarrow> ustr \<Rightarrow> 'b upload list \<Rightarrow> ustr \<Rightarrow> 'b store \<Rightarrow> (response + ustr) \<times> 'b store" where
  "process_examples env msg [] text s = (Inr text, s)"
| "process_examples env msg (f # fs) text s =
     (if filename f = [] then process_examples env msg fs text s
      else
        (case save env f (path_join UPLOAD_FOLDER (filename f)) s of
           Inl e \<Rightarrow> (Inl (json_response 500 (verdict False [msg @ exn_str e])), s)
         | Inr s1 \<Rightarrow>
             (case extract_text env (files s1) (path_join UPLOAD_FOLDER (filename f)) of
                Inl e \<Rightarrow>
                  (Inl (json_response 500 (verdict False [msg @ exn_str e])),
                   log (Extracted (path_join UPLOAD_FOLDER (filename f))) s1)
              | Inr None \<Rightarrow>
                  (Inl (json_response 500 (verdict False [msg @ exn_str none_plus_str])),
                   log (Extracted (path_join UPLOAD_FOLDER (filename f))) s1)
              | Inr (Some t) \<Rightarrow>
                  process_examples env msg fs (text @ t @ str ''\<newline>\<newline>---\<newline>\<newline>'')
                    (unlink (path_join UPLOAD_FOLDER (filename f))
                       (log (Extracted (path_join UPLOAD_FOLDER (filename f))) s1)))))"

definition examples_of ::
  "'b env \<Rightarrow> ustr \<Rightarrow> ustr \<Rightarrow> 'b request \<Rightarrow> 'b store \<Rightarrow> (response + ustr) \<times> 'b store" where
  "examples_of env key msg req s =
     (if has_key (uploads req) key then process_examples env msg (getlist (uploads req) key) [] s
      else (Inr [], s))"

text \<open>Lines 137 and 138: the field \<open>precent\<close>, read as an integer and divided by 100.\<close>

definition threshold_of :: "'b env \<Rightarrow> 'b request \<Rightarrow> exn + rat" where
  "threshold_of env req =
     (case py_int env (form_get (form req) (str ''precent'') []) of
        Inl e \<Rightarrow> Inl e
      | Inr n \<Rightarrow> truediv n 100)"

text \<open>
  Lines 173 to 192: the text of the document, its removal, the model and the response.
\<close>

definition finish ::
  "'b env \<Rightarrow> ustr \<Rightarrow> ustr \<Rightarrow> ustr \<Rightarrow> path \<Rightarrow> rat \<Rightarrow> 'b store \<Rightarrow> (exn + response) \<times> 'b store" where
  "finish env requirements valid_examples_text invalid_examples_text doc_path precent s =
     (case extract_text env (files s) doc_path of
        Inl e \<Rightarrow>
          (Inr (json_response 500 (verdict False [MSG_DOCUMENT @ exn_str e])),
           unlink doc_path (log (Extracted doc_path) s))
      | Inr document_text \<Rightarrow>
          (case validate_text env requirements valid_examples_text invalid_examples_text
                  document_text precent of
             Inl e \<Rightarrow>
               (Inl e,
                log (Prompted (prompt_of env requirements valid_examples_text
                       invalid_examples_text document_text precent))
                  (unlink doc_path (log (Extracted doc_path) s)))
           | Inr result \<Rightarrow>
               (Inr (json_response 200 result),
                log (Prompted (prompt_of env requirements valid_examples_text
                       invalid_examples_text document_text precent))
                  (unlink doc_path (log (Extracted doc_path) s)))))"

text \<open>
  Lines 132 to 171: the document is saved, the threshold is read, the examples are
  processed. An exception of \<open>save\<close>, \<open>int\<close> or \<open>/\<close> here is outside every \<open>try\<close>.
\<close>

definition stage ::
  "'b env \<Rightarrow> 'b request \<Rightarrow> ustr \<Rightarrow> 'b upload \<Rightarrow> 'b store \<Rightarrow> (exn + response) \<times> 'b store" where
  "stage env req requirements document_file s =
     (case save env document_file (path_join UPLOAD_FOLDER (filename document_file)) s of
        Inl e \<Rightarrow> (Inl e, s)
      | Inr s1 \<Rightarrow>
          (case threshold_of env req of
             Inl e \<Rightarrow> (Inl e, s1)
           | Inr precent \<Rightarrow>
               (case examples_of env (str ''valid_examples'') MSG_VALID_EXAMPLE req s1 of
                  (Inl r, s2) \<Rightarrow> (Inr r, s2)
                | (Inr valid_examples_text, s2) \<Rightarrow>
                    (case examples_of env (str ''invalid_examples'') MSG_INVALID_EXAMPLE req s2 of
                       (Inl r, s3) \<Rightarrow> (Inr r, s3)
                     | (Inr invalid_examples_text, s3) \<Rightarrow>
                         finish env requirements valid_examples_text invalid_examples_text
                           (path_join UPLOAD_FOLDER (filename document_file)) precent s3))))"

text \<open>
  The handler of \<open>POST /validate\<close>. The result is the response, or the exception that
  leaves the handler, with the store as the handler leaves it.
\<close>

definition validate :: "'b env \<Rightarrow> 'b request \<Rightarrow> 'b store \<Rightarrow> (exn + response) \<times> 'b store" where
  "validate env req s =
     (if strip (form_get (form req) (str ''requirements'') []) = []
      then (Inr (json_response 400 (verdict False [MSG_NO_REQUIREMENTS])), s)
      else
        (case map_of (uploads req) (str ''document'') of
           None \<Rightarrow> (Inr (json_response 400 (verdict False [MSG_NO_DOCUMENT])), s)
         | Some document_file \<Rightarrow>
             if filename document_file = []
             then (Inr (json_response 400 (verdict False [MSG_NO_DOCUMENT])), s)
             else stage env req (strip (form_get (form req) (str ''requirements'') []))
                    document_file s))"

section \<open>Notions of the specification\<close>

text \<open>
  The two-field schema in the words of the specification: an object with exactly the
  keys \<open>valid\<close>, a boolean, and \<open>reasons\<close>, a sequence of strings.
\<close>

fun is_string :: "json \<Rightarrow> bool" where
  "is_string (JString s) = True"
| "is_string _ = False"

fun is_bool :: "json \<Rightarrow> bool" where
  "is_bool (JBool b) = True"
| "is_bool _ = False"

fun is_string_array :: "json \<Rightarrow> bool" where
  "is_string_array (JArray xs) = list_all is_string xs"
| "is_string_array _ = False"

fun matches_schema :: "json \<Rightarrow> bool" where
  "matches_schema (JObject kvs) =
     (length kvs = 2 \<and>
      (case map_of kvs (str ''valid'') of None \<Rightarrow> False | Some v \<Rightarrow> is_bool v) \<and>
      (case map_of kvs (str ''reasons'') of None \<Rightarrow> False | Some v \<Rightarrow> is_string_array v))"
| "matches_schema _ = False"

text \<open>
  A reply is rejected, in the words of the specification, when it is not valid JSON or
  does not match the schema.
\<close>

definition rejected_reply :: "'b env \<Rightarrow> ustr \<Rightarrow> bool" where
  "rejected_reply env c =
     (case loads env c of Inl e \<Rightarrow> True | Inr v \<Rightarrow> \<not> matches_schema v)"

text \<open>The three lines that open a section of the prompt: a rule, a title, a rule.\<close>

definition banner :: "nat \<Rightarrow> string \<Rightarrow> ustr" where
  "banner icon title =
     str ''=================================================='' @ [10] @
     [icon] @ str title @ [10] @
     str ''=================================================='' @ [10]"

text \<open>A document is attached when the field \<open>document\<close> holds a file with a name.\<close>

definition document_attached :: "'b request \<Rightarrow> bool" where
  "document_attached req =
     (case map_of (uploads req) (str ''document'') of
        None \<Rightarrow> False
      | Some f \<Rightarrow> filename f \<noteq> [])"

text \<open>The prompts sent to the model, in the order of the trace.\<close>

fun prompts :: "event list \<Rightarrow> ustr list" where
  "prompts [] = []"
| "prompts (Prompted x # evs) = x # prompts evs"
| "prompts (ev # evs) = prompts evs"

text \<open>The request without the example entries whose file name is empty.\<close>

definition named_or_other :: "ustr \<times> 'b upload \<Rightarrow> bool" where
  "named_or_other kv \<longleftrightarrow>
     filename (snd kv) \<noteq> [] \<or>
     (fst kv \<noteq> str ''valid_examples'' \<and> fst kv \<noteq> str ''invalid_examples'')"

definition drop_blank_examples :: "'b request \<Rightarrow> 'b request" where
  "drop_blank_examples req = req\<lparr>uploads := filter named_or_other (uploads req)\<rparr>"

text \<open>The request with the field \<open>requirements\<close> set to a text.\<close>

definition with_requirements :: "ustr \<Rightarrow> 'b request \<Rightarrow> 'b request" where
  "with_requirements r req = req\<lparr>form := (str ''requirements'', r) # form req\<rparr>"

section \<open>A stub of the world, and sample requests\<close>

text \<open>
  An instance of the environment for running the model on concrete requests. A file
  content is the list of its text blocks, which both readers return as pages or as
  paragraphs; every path can be written; the model always gives the same reply; the
  decoder is \<open>json_loads\<close>; only the ASCII digits are decimal. \<open>hundredths_str\<close> writes
  a multiple of 1/100 in decimal, with at least one digit after the point: this is the
  \<open>str\<close> of the nearest float as long as the value has at most 15 digits.
\<close>

definition hundredths_str :: "rat \<Rightarrow> ustr" where
  "hundredths_str r =
     (if r < 0 then [45] else []) @ nat_str (nat \<bar>\<lfloor>r * 100\<rfloor>\<bar> div 100) @ [46] @
     (if nat \<bar>\<lfloor>r * 100\<rfloor>\<bar> mod 10 = 0 then nat_str (nat \<bar>\<lfloor>r * 100\<rfloor>\<bar> mod 100 div 10)
      else [48 + nat \<bar>\<lfloor>r * 100\<rfloor>\<bar> mod 100 div 10, 48 + nat \<bar>\<lfloor>r * 100\<rfloor>\<bar> mod 10])"

definition plain_reader :: "string \<Rightarrow> path \<Rightarrow> ustr list option \<Rightarrow> exn + ustr list" where
  "plain_reader cls p c =
     (case c of None \<Rightarrow> Inl (Exn cls (str ''no such file'')) | Some blocks \<Rightarrow> Inr blocks)"

definition stub_reply :: ustr where
  \<open>stub_reply = str ''{"valid": true, "reasons": []}''\<close>

definition stub_env :: "ustr list env" where
  "stub_env =
     \<lparr>fitz_open = plain_reader ''FileNotFoundError'',
      docx_Document = plain_reader ''PackageNotFoundError'',
      save_error = (\<lambda>p. None),
      chat = (\<lambda>prompt. Inr (Some stub_reply)),
      loads = json_loads,
      float_str = hundredths_str,
      unicode_decimal = (\<lambda>c. None),
      int_max_str_digits = 4300\<rparr>"

definition empty_store :: "ustr list store" where
  "empty_store = \<lparr>files = Map.empty, trace = []\<rparr>"

definition report_pdf :: "ustr list upload" where
  "report_pdf = \<lparr>filename = str ''report.pdf'', content = [str ''Dated 2024-01-01.'']\<rparr>"

definition notes_txt :: "ustr list upload" where
  "notes_txt = \<lparr>filename = str ''notes.txt'', content = [str ''plain text'']\<rparr>"

definition letter_docx :: "ustr list upload" where
  "letter_docx =
     \<lparr>filename = str ''letter.DOCX'', content = [str ''Dear Sir,'', str ''Yours.'']\<rparr>"

definition blank_upload :: "ustr list upload" where
  "blank_upload = \<lparr>filename = [], content = []\<rparr>"

text \<open>The upload directory holding one staged file.\<close>

definition staged :: "ustr list upload \<Rightarrow> path \<rightharpoonup> ustr list" where
  "staged f = [path_join UPLOAD_FOLDER (filename f) \<mapsto> content f]"

definition sample_form :: "string \<Rightarrow> (ustr \<times> ustr) list" where
  "sample_form percentage =
     [(str ''requirements'', str ''Must include a date.''), (str ''precent'', str percentage)]"

text \<open>A well-formed request: a PDF document, the threshold 70, no examples.\<close>

definition plain_request :: "ustr list request" where
  "plain_request = \<lparr>form = sample_form ''70'', uploads = [(str ''document'', report_pdf)]\<rparr>"

text \<open>The same with a valid example in a format that is not supported.\<close>

definition bad_example_request :: "ustr list request" where
  "bad_example_request =
     \<lparr>form = sample_form ''70'',
      uploads = [(str ''document'', report_pdf), (str ''valid_examples'', notes_txt)]\<rparr>"

text \<open>A document in a format that is not supported.\<close>

definition txt_request :: "ustr list request" where
  "txt_request = \<lparr>form = sample_form ''70'', uploads = [(str ''document'', notes_txt)]\<rparr>"

text \<open>No field \<open>precent\<close>.\<close>

definition no_percent_request :: "ustr list request" where
  "no_percent_request =
     \<lparr>form = [(str ''requirements'', str ''Must include a date.'')],
      uploads = [(str ''document'', report_pdf)]\<rparr>"

text \<open>The percentage 150.\<close>

definition high_percent_request :: "ustr list request" where
  "high_percent_request =
     \<lparr>form = sample_form ''150'', uploads = [(str ''document'', report_pdf)]\<rparr>"

text \<open>Requirements of white space only, and an example entry without a file.\<close>

definition blank_requirements_request :: "ustr list request" where
  "blank_requirements_request =
     \<lparr>form = [(str ''requirements'', [32, 9, 12288, 10]), (str ''precent'', str ''70'')],
      uploads = [(str ''document'', report_pdf)]\<rparr>"

definition blank_example_request :: "ustr list request" where
  "blank_example_request =
     \<lparr>form = sample_form ''70'',
      uploads = [(str ''document'', report_pdf), (str ''valid_examples'', blank_upload),
                 (str ''invalid_examples'', letter_docx)]\<rparr>"

section \<open>Evaluation of the decoder\<close>

lemmas decode_value_numeral =
  decode_value.simps(2) [of "pred_numeral k", folded numeral_eq_Suc] for k

lemmas decode_array_numeral =
  decode_array.simps(2) [of "pred_numeral k", folded numeral_eq_Suc] for k

lemmas decode_object_numeral =
  decode_object.simps(2) [of "pred_numeral k", folded numeral_eq_Suc] for k

lemmas json_eval =
  json_loads_def str_def skip_ws_def scan_number_def scan_integer_def scan_fraction_def
  scan_exponent_def match_exponent_def is_digit_def json_error_def hex4_def hexval_def
  unescape_def digits_value_def out_of_steps_def Let_def
  decode_value_numeral decode_array_numeral decode_object_numeral

section \<open>Evaluation of the model\<close>

lemmas model_eval =
  validate_def stage_def finish_def threshold_of_def examples_of_def save_def unlink_def log_def
  json_response_def verdict_def form_get_def getlist_def has_key_def strip_def isspace_def
  extract_text_def path_join_def path_of_def path_suffix_def path_name_def rfind_def lower_def
  UPLOAD_FOLDER_def py_int_def int_literal_def int_digits_def int_value_def to_ascii_def
  ascii_space_def truediv_def float_overflow_def validate_text_def decode_reply_def
  none_plus_str_def invalid_literal_def

lemmas stub_eval =
  stub_env_def stub_reply_def plain_reader_def empty_store_def sample_form_def
  report_pdf_def notes_txt_def letter_docx_def blank_upload_def

lemma stub_reply_decoded: "json_loads stub_reply = Inr (verdict True [])"
  by (simp add: stub_reply_def verdict_def json_eval)

lemma stub_fields:
  "fitz_open stub_env = plain_reader ''FileNotFoundError''"
  "docx_Document stub_env = plain_reader ''PackageNotFoundError''"
  "save_error stub_env p = None"
  "chat stub_env q = Inr (Some stub_reply)"
  "loads stub_env = json_loads"
  "float_str stub_env = hundredths_str"
  "unicode_decimal stub_env c = None"
  "int_max_str_digits stub_env = 4300"
  by (simp_all add: stub_env_def)

lemmas request_eval =
  model_eval stub_fields stub_reply_decoded plain_reader_def empty_store_def sample_form_def
  report_pdf_def notes_txt_def letter_docx_def blank_upload_def is_digit_def digits_value_def
  str_def

section \<open>The reply of the model (C1)\<close>

text \<open>
  C1, as stated, fails: a reply that is valid JSON but does not match the schema is
  returned as decoded. The reply \<open>{"valid": true}\<close> lacks the key \<open>reasons\<close>, so the
  specification rejects it, and the program returns the decoded object, not the
  fallback verdict.
\<close>

theorem schema_mismatch_not_fallback:
  \<open>rejected_reply stub_env (str ''{"valid": true}'') \<and>
   decode_reply stub_env (Some (str ''{"valid": true}'')) = JObject [(str ''valid'', JBool True)] \<and>
   decode_reply stub_env (Some (str ''{"valid": true}'')) \<noteq> verdict False [MSG_INVALID_JSON]\<close>
  by (simp add: rejected_reply_def decode_reply_def stub_env_def verdict_def json_eval)

text \<open>
  C1, amended: whatever the decoder and the model, \<open>validate_text\<close> returns exactly
  the fallback verdict for a reply without content and for every reply that
  \<open>json.loads\<close> fails to decode, and returns every reply that decodes as it was
  decoded. The result is a value and not an exception, so the decoding error does not
  reach the caller.
\<close>

theorem reply_decoded_or_fallback:
  assumes "chat env (prompt_of env r v i d p) = Inr reply"
  shows "(reply = None \<longrightarrow>
           validate_text env r v i d p = Inr (verdict False [MSG_INVALID_JSON])) \<and>
         (\<forall>c e. reply = Some c \<longrightarrow> loads env c = Inl e \<longrightarrow>
           validate_text env r v i d p = Inr (verdict False [MSG_INVALID_JSON])) \<and>
         (\<forall>c x. reply = Some c \<longrightarrow> loads env c = Inr x \<longrightarrow>
           validate_text env r v i d p = Inr x)"
  using assms by (simp add: validate_text_def decode_reply_def)

theorem reply_decoded_or_fallback_witness:
  \<open>validate_text (stub_env\<lparr>chat := \<lambda>q. Inr None\<rparr>)
     (str ''Must include a date.'') [] [] (Some (str ''Dated 2024-01-01.'')) (7 / 10) =
   Inr (JObject [(str ''valid'', JBool False),
                 (str ''reasons'', JArray [JString (str ''Invalid JSON returned from model'')])]) \<and>
   validate_text (stub_env\<lparr>chat := \<lambda>q. Inr (Some (str ''not json''))\<rparr>)
     (str ''Must include a date.'') [] [] (Some (str ''Dated 2024-01-01.'')) (7 / 10) =
   Inr (JObject [(str ''valid'', JBool False),
                 (str ''reasons'', JArray [JString (str ''Invalid JSON returned from model'')])]) \<and>
   validate_text stub_env
     (str ''Must include a date.'') [] [] (Some (str ''Dated 2024-01-01.'')) (7 / 10) =
   Inr (JObject [(str ''valid'', JBool True), (str ''reasons'', JArray [])]) \<and>
   validate_text (stub_env\<lparr>chat := \<lambda>q. Inr (Some (str ''{"valid": true}''))\<rparr>)
     (str ''Must include a date.'') [] [] (Some (str ''Dated 2024-01-01.'')) (7 / 10) =
   Inr (JObject [(str ''valid'', JBool True)])\<close>
proof -
  let ?silent = "stub_env\<lparr>chat := \<lambda>q. Inr None\<rparr>"
  let ?noisy = "stub_env\<lparr>chat := \<lambda>q. Inr (Some (str ''not json''))\<rparr>"
  let ?partial = \<open>stub_env\<lparr>chat := \<lambda>q. Inr (Some (str ''{"valid": true}''))\<rparr>\<close>
  have undecodable:
    "loads ?noisy (str ''not json'') = Inl (Exn ''JSONDecodeError'' (str ''Expecting value''))"
    by (simp add: stub_fields json_eval)
  have decoded: "loads stub_env stub_reply = Inr (verdict True [])"
    by (simp add: stub_fields stub_reply_decoded)
  have mismatch:
    \<open>loads ?partial (str ''{"valid": true}'') = Inr (JObject [(str ''valid'', JBool True)])\<close>
    by (simp add: stub_fields json_eval)
  have "chat ?silent q = Inr None" "chat ?noisy q = Inr (Some (str ''not json''))"
    "chat stub_env q = Inr (Some stub_reply)"
    \<open>chat ?partial q = Inr (Some (str ''{"valid": true}''))\<close> for q
    by (simp_all add: stub_fields)
  from reply_decoded_or_fallback [OF this(1)] reply_decoded_or_fallback [OF this(2)]
    reply_decoded_or_fallback [OF this(3)] reply_decoded_or_fallback [OF this(4)]
    undecodable decoded mismatch
  show ?thesis
    by (simp add: verdict_def MSG_INVALID_JSON_def)
qed

section \<open>The prompt (C8)\<close>

lemma suffix_by_drop: "drop (length ys - length xs) ys = xs \<Longrightarrow> suffix xs ys"
  by (metis suffix_drop)

lemma prompt_head_banner: "suffix (banner 128221 '' VALIDATION REQUIREMENTS'') prompt_head"
  by (rule suffix_by_drop) (simp add: prompt_head_def banner_def str_def)

lemma prompt_valid_header_banner:
  "prompt_valid_header = [10, 10] @ banner 128994 '' VALID EXAMPLES (optional)''"
  by (simp add: prompt_valid_header_def banner_def)

lemma prompt_invalid_header_banner:
  "prompt_invalid_header = [10, 10] @ banner 128308 '' INVALID EXAMPLES (optional)''"
  by (simp add: prompt_invalid_header_def banner_def)

lemma prompt_document_header_banner:
  "prompt_document_header = [10, 10] @ banner 128196 '' DOCUMENT TO VALIDATE''"
  by (simp add: prompt_document_header_def banner_def)

lemma prompt_rules_newline: "prefix [10] prompt_rules"
  by (simp add: prompt_rules_def)

lemma prompt_rules_score:
  \<open>suffix (str '' - Mark document as "valid" if overall score >= '') prompt_rules\<close>
  by (rule suffix_by_drop) (simp add: prompt_rules_def str_def)

lemma prompt_tail_newline: "prefix [10] prompt_tail"
  by (simp add: prompt_tail_def)

lemma layout:
  fixes r vb ib doc t :: "'a list"
  assumes H: "suffix B1 H"
    and V: "V = [n, n] @ B2"
    and I: "I = [n, n] @ B3"
    and D: "D = [n, n] @ B4"
    and R: "prefix [n] R" "suffix S R"
    and T: "prefix [n] T"
  defines "P \<equiv> H @ r @ V @ vb @ I @ ib @ D @ doc @ R @ t @ T"
  shows "sublist (B1 @ r @ [n]) P"
    and "sublist (B2 @ vb @ [n]) P"
    and "sublist (B3 @ ib @ [n]) P"
    and "sublist (B4 @ doc @ [n]) P"
    and "sublist (S @ t @ [n]) P"
proof -
  from H obtain H' where H': "H = H' @ B1"
    unfolding suffix_def by blast
  from R obtain R' R'' where R': "R = [n] @ R'" and R'': "R = R'' @ S"
    unfolding suffix_def prefix_def by blast
  from T obtain T' where T': "T = [n] @ T'"
    unfolding prefix_def by blast
  have "P = H' @ (B1 @ r @ [n]) @ ([n] @ B2 @ vb @ I @ ib @ D @ doc @ R @ t @ T)"
    by (simp add: P_def H' V)
  then show "sublist (B1 @ r @ [n]) P"
    by (simp only: sublist_appendI)
  have "P = (H @ r @ [n, n]) @ (B2 @ vb @ [n]) @ ([n] @ B3 @ ib @ D @ doc @ R @ t @ T)"
    by (simp add: P_def V I)
  then show "sublist (B2 @ vb @ [n]) P"
    by (simp only: sublist_appendI)
  have "P = (H @ r @ V @ vb @ [n, n]) @ (B3 @ ib @ [n]) @ ([n] @ B4 @ doc @ R @ t @ T)"
    by (simp add: P_def I D)
  then show "sublist (B3 @ ib @ [n]) P"
    by (simp only: sublist_appendI)
  have "P = (H @ r @ V @ vb @ I @ ib @ [n, n]) @ (B4 @ doc @ [n]) @ (R' @ t @ T)"
    by (simp add: P_def D) (simp add: R')
  then show "sublist (B4 @ doc @ [n]) P"
    by (simp only: sublist_appendI)
  have "P = (H @ r @ V @ vb @ I @ ib @ D @ doc @ R'') @ (S @ t @ [n]) @ T'"
    by (simp add: P_def T') (simp add: R'')
  then show "sublist (S @ t @ [n]) P"
    by (simp only: sublist_appendI)
qed

lemmas prompt_layout =
  layout [OF prompt_head_banner prompt_valid_header_banner prompt_invalid_header_banner
    prompt_document_header_banner prompt_rules_newline prompt_rules_score prompt_tail_newline]



section \<open>Extraction (C7)\<close>

lemma foldl_append_concat: "foldl (\<lambda>text page. text @ page) acc pages = acc @ concat pages"
  by (induction pages arbitrary: acc) simp_all

lemma split_on_not_Nil: "split_on c xs \<noteq> []"
  by (induction xs) (auto split: list.splits)

lemma split_on_append_sep: "split_on c (xs @ c # ys) = split_on c xs @ split_on c ys"
proof (induction xs)
  case Nil
  then show ?case by simp
next
  case (Cons x xs)
  then show ?case
    using split_on_not_Nil [of c xs] by (cases "split_on c xs") auto
qed

lemma split_on_join:
  "ps \<noteq> [] \<Longrightarrow> split_on c (join [c] ps) = concat (map (split_on c) ps)"
proof (induction "[c]" ps rule: join.induct)
  case 1
  then show ?case by simp
next
  case (2 x)
  then show ?case by simp
next
  case (3 x y ys)
  then show ?case
    by (simp add: split_on_append_sep)
qed

text \<open>
  C7: for a path whose suffix is \<open>.pdf\<close> in any letter case, extraction gives the
  texts of the pages concatenated in page order; for \<open>.docx\<close>, the paragraph texts
  joined by line feeds, so that the lines of the result are the lines of the paragraphs
  in their order; for any other suffix it gives \<open>None\<close>, which is not a text and in
  particular not the empty text.
\<close>

theorem extract_text_by_format:
  "(lower (path_suffix p) = str ''.pdf'' \<longrightarrow> fitz_open env p (fs p) = Inr pages \<longrightarrow>
      extract_text env fs p = Inr (Some (concat pages))) \<and>
   (lower (path_suffix p) = str ''.docx'' \<longrightarrow> docx_Document env p (fs p) = Inr paragraphs \<longrightarrow>
      extract_text env fs p = Inr (Some (join [10] paragraphs)) \<and>
      (paragraphs \<noteq> [] \<longrightarrow>
         split_on 10 (join [10] paragraphs) = concat (map (split_on 10) paragraphs))) \<and>
   (lower (path_suffix p) \<noteq> str ''.pdf'' \<longrightarrow> lower (path_suffix p) \<noteq> str ''.docx'' \<longrightarrow>
      extract_text env fs p = Inr None \<and> extract_text env fs p \<noteq> Inr (Some []))"
proof -
  have "str ''.pdf'' \<noteq> str ''.docx''"
    by (simp add: str_def)
  then show ?thesis
    by (simp add: extract_text_def foldl_append_concat split_on_join)
qed

theorem extract_text_by_format_witness:
  "extract_text stub_env (staged report_pdf) (path_join UPLOAD_FOLDER (str ''report.pdf'')) =
     Inr (Some (str ''Dated 2024-01-01.'')) \<and>
   extract_text stub_env (staged letter_docx) (path_join UPLOAD_FOLDER (str ''letter.DOCX'')) =
     Inr (Some (str ''Dear Sir,'' @ [10] @ str ''Yours.'')) \<and>
   split_on 10 (str ''Dear Sir,'' @ [10] @ str ''Yours.'') = [str ''Dear Sir,'', str ''Yours.''] \<and>
   extract_text stub_env (staged notes_txt) (path_join UPLOAD_FOLDER (str ''notes.txt'')) = Inr None"
proof -
  let ?pdf = "path_join UPLOAD_FOLDER (str ''report.pdf'')"
  let ?docx = "path_join UPLOAD_FOLDER (str ''letter.DOCX'')"
  let ?txt = "path_join UPLOAD_FOLDER (str ''notes.txt'')"
  have pdf: "lower (path_suffix ?pdf) = str ''.pdf''"
    and docx: "lower (path_suffix ?docx) = str ''.docx''"
    and other: "lower (path_suffix ?txt) \<noteq> str ''.pdf''" "lower (path_suffix ?txt) \<noteq> str ''.docx''"
    by (simp_all add: model_eval str_def)
  have pages: "fitz_open stub_env ?pdf (staged report_pdf ?pdf) = Inr [str ''Dated 2024-01-01.'']"
    by (simp add: stub_eval staged_def)
  have paragraphs:
    "docx_Document stub_env ?docx (staged letter_docx ?docx) = Inr [str ''Dear Sir,'', str ''Yours.'']"
    by (simp add: stub_eval staged_def)
  from extract_text_by_format [of ?pdf stub_env "staged report_pdf" "[str ''Dated 2024-01-01.'']"]
    extract_text_by_format [of ?docx stub_env "staged letter_docx" _ "[str ''Dear Sir,'', str ''Yours.'']"]
    extract_text_by_format [of ?txt stub_env "staged notes_txt"]
    pdf docx other pages paragraphs
  show ?thesis
    by (simp add: str_def)
qed

section \<open>Missing input (C6)\<close>

text \<open>
  C6: when the requirements field is empty or absent, or no document is attached, the
  handler answers with status 400 and a verdict that is not valid and carries one
  reason (the requirements message if the requirements are blank, else the document
  message), and the store is unchanged: nothing was staged and nothing extracted.
\<close>

theorem missing_input_rejected:
  assumes "form_get (form req) (str ''requirements'') [] = [] \<or> \<not> document_attached req"
  shows "validate env req s =
    (Inr (json_response 400
       (verdict False
          [if strip (form_get (form req) (str ''requirements'') []) = []
           then MSG_NO_REQUIREMENTS else MSG_NO_DOCUMENT])), s)"
proof (cases "strip (form_get (form req) (str ''requirements'') []) = []")
  case True
  then show ?thesis
    by (simp add: validate_def)
next
  case False
  then have "form_get (form req) (str ''requirements'') [] \<noteq> []"
    by (auto simp: strip_def)
  with assms have "\<not> document_attached req"
    by simp
  with False show ?thesis
    by (simp add: validate_def document_attached_def split: option.splits)
qed

theorem missing_input_rejected_witness:
  "validate stub_env \<lparr>form = [(str ''precent'', str ''70'')], uploads = [(str ''document'', report_pdf)]\<rparr>
     empty_store =
     (Inr (json_response 400 (verdict False [MSG_NO_REQUIREMENTS])), empty_store) \<and>
   validate stub_env \<lparr>form = sample_form ''70'', uploads = [(str ''document'', blank_upload)]\<rparr>
     empty_store =
     (Inr (json_response 400 (verdict False [MSG_NO_DOCUMENT])), empty_store)"
proof -
  let ?r1 = "\<lparr>form = [(str ''precent'', str ''70'')], uploads = [(str ''document'', report_pdf)]\<rparr>"
  let ?r2 = "\<lparr>form = sample_form ''70'', uploads = [(str ''document'', blank_upload)]\<rparr>"
  have absent: "form_get (form ?r1) (str ''requirements'') [] = []"
    by (simp add: form_get_def str_def)
  then have blank: "strip (form_get (form ?r1) (str ''requirements'') []) = []"
    by (simp add: strip_def)
  have unattached: "\<not> document_attached ?r2"
    by (simp add: document_attached_def blank_upload_def)
  have given: "strip (form_get (form ?r2) (str ''requirements'') []) \<noteq> []"
    by (simp add: sample_form_def form_get_def strip_def isspace_def str_def)
  from missing_input_rejected [OF disjI1 [OF absent], of stub_env empty_store] blank
  have first: "validate stub_env ?r1 empty_store =
      (Inr (json_response 400 (verdict False [MSG_NO_REQUIREMENTS])), empty_store)"
    by simp
  from missing_input_rejected [OF disjI2 [OF unattached], of stub_env empty_store] given
  have second: "validate stub_env ?r2 empty_store =
      (Inr (json_response 400 (verdict False [MSG_NO_DOCUMENT])), empty_store)"
    by simp
  from first second show ?thesis
    by (rule conjI)
qed

section \<open>Blank example entries (C9)\<close>

lemma process_examples_filter:
  "process_examples env msg (filter (\<lambda>f. filename f \<noteq> []) fs) acc s =
   process_examples env msg fs acc s"
  by (induction fs arbitrary: acc s) (simp_all split: sum.splits option.splits)

lemma getlist_missing: "\<not> has_key m k \<Longrightarrow> getlist m k = []"
  by (induction m) (auto simp: has_key_def getlist_def)

lemma examples_of_getlist:
  "examples_of env key msg req s = process_examples env msg (getlist (uploads req) key) [] s"
  by (simp add: examples_of_def getlist_missing)

lemma getlist_named:
  "key = str ''valid_examples'' \<or> key = str ''invalid_examples'' \<Longrightarrow>
   getlist (filter named_or_other ups) key = filter (\<lambda>f. filename f \<noteq> []) (getlist ups key)"
  by (induction ups) (auto simp: getlist_def named_or_other_def)

lemma examples_of_drop_blank:
  "key = str ''valid_examples'' \<or> key = str ''invalid_examples'' \<Longrightarrow>
   examples_of env key msg (drop_blank_examples req) s = examples_of env key msg req s"
  by (simp add: examples_of_getlist drop_blank_examples_def getlist_named process_examples_filter)

lemma document_key: "str ''document'' \<noteq> str ''valid_examples''" "str ''document'' \<noteq> str ''invalid_examples''"
  by (simp_all add: str_def)

lemma document_drop_blank:
  "map_of (filter named_or_other ups) (str ''document'') = map_of ups (str ''document'')"
  by (induction ups) (auto simp: named_or_other_def document_key)

lemma stage_drop_blank:
  "stage env (drop_blank_examples req) r d s = stage env req r d s"
proof -
  have "threshold_of env (drop_blank_examples req) = threshold_of env req"
    by (simp add: threshold_of_def drop_blank_examples_def)
  then show ?thesis
    by (simp add: stage_def examples_of_drop_blank cong: sum.case_cong)
qed

lemma process_examples_all_blank:
  "list_all (\<lambda>f. filename f = []) fs \<Longrightarrow> process_examples env msg fs acc s = (Inr acc, s)"
  by (induction fs) simp_all

text \<open>
  C9: example entries with an empty file name make no difference to the handler: the
  response, the files and the trace are those of the request without these entries.
  In the loop such an entry is passed over: a list of such entries leaves the text and
  the store as they were, with no response; and after such an entry the next named
  entry is saved, extracted, added to the text with the separator and removed, and
  the loop goes on with the entries after it.
\<close>

theorem blank_examples_skipped:
  "validate env (drop_blank_examples req) s = validate env req s \<and>
   (filename f = [] \<longrightarrow>
      process_examples env msg (f # fs) acc s = process_examples env msg fs acc s) \<and>
   (list_all (\<lambda>f. filename f = []) fs \<longrightarrow> process_examples env msg fs acc s = (Inr acc, s)) \<and>
   (filename f = [] \<longrightarrow> filename g \<noteq> [] \<longrightarrow>
    save env g (path_join UPLOAD_FOLDER (filename g)) s = Inr s1 \<longrightarrow>
    extract_text env (files s1) (path_join UPLOAD_FOLDER (filename g)) = Inr (Some t) \<longrightarrow>
      process_examples env msg (f # g # fs) acc s =
        process_examples env msg fs (acc @ t @ str ''\<newline>\<newline>---\<newline>\<newline>'')
          (unlink (path_join UPLOAD_FOLDER (filename g))
             (log (Extracted (path_join UPLOAD_FOLDER (filename g))) s1)))"
proof -
  have "form (drop_blank_examples req) = form req"
    and "map_of (uploads (drop_blank_examples req)) (str ''document'') =
         map_of (uploads req) (str ''document'')"
    by (simp_all add: drop_blank_examples_def document_drop_blank)
  then have "validate env (drop_blank_examples req) s = validate env req s"
    by (auto simp: validate_def stage_drop_blank split: option.splits)
  then show ?thesis
    by (simp add: process_examples_all_blank)
qed

theorem blank_examples_skipped_witness:
  "process_examples stub_env MSG_VALID_EXAMPLE [blank_upload, letter_docx] [] empty_store =
     (Inr (str ''Dear Sir,\<newline>Yours.\<newline>\<newline>---\<newline>\<newline>''),
      \<lparr>files = Map.empty,
       trace = [Saved (path_join UPLOAD_FOLDER (str ''letter.DOCX'')),
                Extracted (path_join UPLOAD_FOLDER (str ''letter.DOCX'')),
                Unlinked (path_join UPLOAD_FOLDER (str ''letter.DOCX''))]\<rparr>) \<and>
   process_examples stub_env MSG_VALID_EXAMPLE [blank_upload, blank_upload] [] empty_store =
     (Inr [], empty_store) \<and>
   validate stub_env blank_example_request empty_store =
     (Inr (json_response 200 (verdict True [])),
      \<lparr>files = Map.empty,
       trace = [Saved (path_join UPLOAD_FOLDER (str ''report.pdf'')),
                Saved (path_join UPLOAD_FOLDER (str ''letter.DOCX'')),
                Extracted (path_join UPLOAD_FOLDER (str ''letter.DOCX'')),
                Unlinked (path_join UPLOAD_FOLDER (str ''letter.DOCX'')),
                Extracted (path_join UPLOAD_FOLDER (str ''report.pdf'')),
                Unlinked (path_join UPLOAD_FOLDER (str ''report.pdf'')),
                Prompted (prompt_of stub_env (str ''Must include a date.'') []
                  (str ''Dear Sir,\<newline>Yours.\<newline>\<newline>---\<newline>\<newline>'')
                  (Some (str ''Dated 2024-01-01.'')) (7 / 10))]\<rparr>)"
proof -
  let ?p = "path_join UPLOAD_FOLDER (filename letter_docx)"
  let ?s1 = "\<lparr>files = [?p \<mapsto> content letter_docx], trace = [Saved ?p]\<rparr>"
  have blank: "filename blank_upload = []" and named: "filename letter_docx \<noteq> []"
    and blanks: "list_all (\<lambda>f. filename f = []) [blank_upload, blank_upload]"
    by (simp_all add: blank_upload_def letter_docx_def str_def)
  have saved: "save stub_env letter_docx ?p empty_store = Inr ?s1"
    by (simp add: save_def log_def stub_fields empty_store_def)
  have extracted: "extract_text stub_env (files ?s1) ?p =
      Inr (Some (str ''Dear Sir,\<newline>Yours.''))"
    by (simp add: request_eval)
  have dropped: "drop_blank_examples blank_example_request =
      \<lparr>form = sample_form ''70'',
       uploads = [(str ''document'', report_pdf), (str ''invalid_examples'', letter_docx)]\<rparr>"
    by (simp add: drop_blank_examples_def blank_example_request_def named_or_other_def
        blank_upload_def letter_docx_def report_pdf_def str_def)
  note skipped = blank_examples_skipped [of stub_env blank_example_request empty_store
      blank_upload MSG_VALID_EXAMPLE "[]" "[]" letter_docx ?s1 "str ''Dear Sir,\<newline>Yours.''"]
  from skipped blank named saved extracted
  have loop: "process_examples stub_env MSG_VALID_EXAMPLE [blank_upload, letter_docx] []
      empty_store =
      process_examples stub_env MSG_VALID_EXAMPLE []
        ([] @ str ''Dear Sir,\<newline>Yours.'' @ str ''\<newline>\<newline>---\<newline>\<newline>'')
        (unlink ?p (log (Extracted ?p) ?s1))"
    by blast
  from blank_examples_skipped [of stub_env _ empty_store _ MSG_VALID_EXAMPLE
      "[blank_upload, blank_upload]" "[]"] blanks
  have nothing: "process_examples stub_env MSG_VALID_EXAMPLE [blank_upload, blank_upload] []
      empty_store = (Inr [], empty_store)"
    by blast
  from skipped dropped
  have handler: "validate stub_env blank_example_request empty_store =
      validate stub_env
        \<lparr>form = sample_form ''70'',
         uploads = [(str ''document'', report_pdf), (str ''invalid_examples'', letter_docx)]\<rparr>
        empty_store"
    by simp
  show ?thesis
    unfolding loop nothing handler
    by (simp add: request_eval)
qed

section \<open>Stripped requirements (C10)\<close>

lemma strip_blank: "list_all isspace r \<Longrightarrow> strip r = []"
proof -
  assume "list_all isspace r"
  then have "dropWhile isspace r = []"
    by (simp add: list_all_iff)
  then show ?thesis
    unfolding strip_def by (simp del: dropWhile_eq_Nil_conv)
qed

lemma strip_ends:
  assumes "strip r \<noteq> []"
  shows "\<not> isspace (hd (strip r))" and "\<not> isspace (last (strip r))"
proof -
  let ?a = "dropWhile isspace r"
  let ?b = "dropWhile isspace (rev ?a)"
  from assms have b: "?b \<noteq> []"
    by (simp add: strip_def)
  then show "\<not> isspace (last (strip r))"
    by (simp add: strip_def last_rev hd_dropWhile)
  have "rev ?a = takeWhile isspace (rev ?a) @ ?b"
    by simp
  then have "?a = rev ?b @ rev (takeWhile isspace (rev ?a))"
    by (metis rev_append rev_rev_ident)
  with b have "hd ?a = hd (rev ?b)" and "?a \<noteq> []"
    by (metis hd_append2 rev_is_Nil_conv, metis Nil_is_append_conv rev_is_Nil_conv)
  then show "\<not> isspace (hd (strip r))"
    by (metis hd_dropWhile strip_def)
qed

lemma strip_strip: "strip (strip r) = strip r"
proof (cases "strip r = []")
  case True
  moreover have "strip [] = []"
    by (simp add: strip_def)
  ultimately show ?thesis
    by simp
next
  case False
  from strip_ends [OF False] False have "dropWhile isspace (strip r) = strip r"
    and "dropWhile isspace (rev (strip r)) = rev (strip r)"
    by (simp_all add: dropWhile_eq_self_iff hd_rev)
  then show ?thesis
    by (simp add: strip_def [of "strip r"])
qed

lemma requirements_key: "str ''precent'' \<noteq> str ''requirements''"
  by (simp add: str_def)

lemma stage_with_requirements:
  "stage env (with_requirements r req) t d s = stage env req t d s"
proof -
  have "threshold_of env (with_requirements r req) = threshold_of env req"
    by (simp add: threshold_of_def with_requirements_def form_get_def requirements_key)
  moreover have "\<And>key msg s. examples_of env key msg (with_requirements r req) s =
      examples_of env key msg req s"
    by (simp add: examples_of_def with_requirements_def)
  ultimately show ?thesis
    by (simp add: stage_def cong: sum.case_cong)
qed

lemma validate_with_requirements:
  "validate env (with_requirements r req) s =
     (if strip r = []
      then (Inr (json_response 400 (verdict False [MSG_NO_REQUIREMENTS])), s)
      else
        (case map_of (uploads req) (str ''document'') of
           None \<Rightarrow> (Inr (json_response 400 (verdict False [MSG_NO_DOCUMENT])), s)
         | Some document_file \<Rightarrow>
             if filename document_file = []
             then (Inr (json_response 400 (verdict False [MSG_NO_DOCUMENT])), s)
             else stage env req (strip r) document_file s))"
proof -
  have "form_get (form (with_requirements r req)) (str ''requirements'') [] = r"
    and "uploads (with_requirements r req) = uploads req"
    by (simp_all add: with_requirements_def form_get_def)
  then show ?thesis
    by (auto simp: validate_def stage_with_requirements split: option.splits)
qed

lemma prompts_append: "prompts (xs @ ys) = prompts xs @ prompts ys"
  by (induction xs rule: prompts.induct) simp_all

lemma prompts_save: "save env f p s = Inr s' \<Longrightarrow> prompts (trace s') = prompts (trace s)"
  by (auto simp: save_def log_def prompts_append split: option.splits)

lemma prompts_unlink: "prompts (trace (unlink p s)) = prompts (trace s)"
  by (simp add: unlink_def log_def prompts_append)

lemma prompts_process_examples:
  "prompts (trace (snd (process_examples env msg fs acc s))) = prompts (trace s)"
proof (induction fs arbitrary: acc s)
  case Nil
  then show ?case by simp
next
  case (Cons f fs)
  show ?case
    by (auto simp: Cons.IH prompts_unlink prompts_append log_def
        dest: prompts_save split: sum.splits option.splits)
qed

lemma prompts_examples_of:
  "prompts (trace (snd (examples_of env key msg req s))) = prompts (trace s)"
  by (simp add: examples_of_def prompts_process_examples)

lemma prompts_finish:
  "\<exists>d. prompts (trace (snd (finish env r v i p t s))) = prompts (trace s) \<or>
       prompts (trace (snd (finish env r v i p t s))) = prompts (trace s) @ [prompt_of env r v i d t]"
  by (auto simp: finish_def unlink_def log_def prompts_append split: sum.splits)

lemma prompts_stage:
  "\<exists>v i d t. prompts (trace (snd (stage env req r f s))) = prompts (trace s) \<or>
       prompts (trace (snd (stage env req r f s))) = prompts (trace s) @ [prompt_of env r v i d t]"
proof (cases "save env f (path_join UPLOAD_FOLDER (filename f)) s")
  case (Inl e)
  then show ?thesis
    by (simp add: stage_def)
next
  case (Inr s1)
  note saved = prompts_save [OF Inr]
  show ?thesis
  proof (cases "threshold_of env req")
    case (Inl e)
    with Inr saved show ?thesis
      by (simp add: stage_def)
  next
    case t: (Inr t)
    obtain a s2 where valid: "examples_of env (str ''valid_examples'') MSG_VALID_EXAMPLE req s1 = (a, s2)"
      by (cases "examples_of env (str ''valid_examples'') MSG_VALID_EXAMPLE req s1")
    obtain b s3 where invalid:
      "examples_of env (str ''invalid_examples'') MSG_INVALID_EXAMPLE req s2 = (b, s3)"
      by (cases "examples_of env (str ''invalid_examples'') MSG_INVALID_EXAMPLE req s2")
    from prompts_examples_of [of env _ _ req s1] valid saved
    have s2: "prompts (trace s2) = prompts (trace s)"
      by (metis snd_conv)
    from prompts_examples_of [of env _ _ req s2] invalid s2
    have s3: "prompts (trace s3) = prompts (trace s)"
      by (metis snd_conv)
    show ?thesis
    proof (cases a)
      case (Inl x)
      with Inr t valid s2 show ?thesis
        by (simp add: stage_def)
    next
      case v: (Inr v)
      show ?thesis
      proof (cases b)
        case (Inl x)
        with Inr t valid v invalid s3 show ?thesis
          by (simp add: stage_def)
      next
        case i: (Inr i)
        from prompts_finish [of env r v i "path_join UPLOAD_FOLDER (filename f)" t s3]
        show ?thesis
          using Inr t valid v invalid i s3 by (auto simp: stage_def)
      qed
    qed
  qed
qed

lemma process_examples_status:
  "process_examples env msg fs acc s = (Inl resp, s') \<Longrightarrow> status resp = 500"
  by (induction fs arbitrary: acc s)
    (auto simp: json_response_def split: if_splits sum.splits option.splits)

lemma examples_of_status:
  "examples_of env key msg req s = (Inl resp, s') \<Longrightarrow> status resp = 500"
  by (auto simp: examples_of_def dest: process_examples_status split: if_splits)

lemma finish_ok:
  assumes "finish env r v i p t s = (Inr resp, s')" and "status resp = 200"
  shows "\<exists>d reply. chat env (prompt_of env r v i d t) = Inr reply \<and>
    body resp = decode_reply env reply \<and>
    prompts (trace s') = prompts (trace s) @ [prompt_of env r v i d t]"
  using assms
  by (auto simp: finish_def validate_text_def json_response_def unlink_def log_def prompts_append
      split: sum.splits) blast

lemma stage_ok:
  assumes "stage env req r f s = (Inr resp, s')" and "status resp = 200"
  shows "\<exists>v i d t reply. threshold_of env req = Inr t \<and>
    chat env (prompt_of env r v i d t) = Inr reply \<and>
    body resp = decode_reply env reply \<and>
    prompts (trace s') = prompts (trace s) @ [prompt_of env r v i d t]"
proof -
  let ?p = "path_join UPLOAD_FOLDER (filename f)"
  from assms(1) obtain s1 where saved: "save env f ?p s = Inr s1"
    by (auto simp: stage_def split: sum.splits)
  from assms(1) saved obtain t where t: "threshold_of env req = Inr t"
    by (auto simp: stage_def split: sum.splits)
  obtain a s2 where valid: "examples_of env (str ''valid_examples'') MSG_VALID_EXAMPLE req s1 = (a, s2)"
    by (cases "examples_of env (str ''valid_examples'') MSG_VALID_EXAMPLE req s1")
  obtain b s3 where invalid:
    "examples_of env (str ''invalid_examples'') MSG_INVALID_EXAMPLE req s2 = (b, s3)"
    by (cases "examples_of env (str ''invalid_examples'') MSG_INVALID_EXAMPLE req s2")
  from prompts_examples_of [of env _ _ req s1] valid prompts_save [OF saved]
  have s2: "prompts (trace s2) = prompts (trace s)"
    by (metis snd_conv)
  from prompts_examples_of [of env _ _ req s2] invalid s2
  have s3: "prompts (trace s3) = prompts (trace s)"
    by (metis snd_conv)
  from assms saved t valid examples_of_status [of env _ _ req s1 resp] obtain v where v: "a = Inr v"
    by (cases a) (auto simp: stage_def)
  from assms saved t valid v invalid examples_of_status [of env _ _ req s2 resp] obtain i
    where i: "b = Inr i"
    by (cases b) (auto simp: stage_def)
  from assms(1) saved t valid v invalid i
  have "finish env r v i ?p t s3 = (Inr resp, s')"
    by (simp add: stage_def)
  from finish_ok [OF this assms(2)] t s3 show ?thesis
    by auto
qed

text \<open>
  C10: requirements made of white space only are rejected with status 400 and the
  requirements message, the store unchanged; the handler sees the requirements only
  through \<open>strip\<close>; the handler sends at most one prompt, which embeds the stripped
  requirements; every response with status 200 carries the decoded reply of the model
  to such a prompt; and when the document is saved and read and the threshold is an
  integer, a request without examples does send the prompt with the stripped
  requirements.
\<close>

theorem requirements_stripped:
  "(list_all isspace r \<longrightarrow>
      validate env (with_requirements r req) s =
        (Inr (json_response 400 (verdict False [MSG_NO_REQUIREMENTS])), s)) \<and>
   validate env (with_requirements (strip r) req) s = validate env (with_requirements r req) s \<and>
   (\<exists>v i d t.
      prompts (trace (snd (validate env (with_requirements r req) s))) = prompts (trace s) \<or>
      prompts (trace (snd (validate env (with_requirements r req) s))) =
        prompts (trace s) @ [prompt_of env (strip r) v i d t]) \<and>
   (\<forall>resp s'. validate env (with_requirements r req) s = (Inr resp, s') \<longrightarrow> status resp = 200 \<longrightarrow>
      (\<exists>v i d t reply. threshold_of env req = Inr t \<and>
         chat env (prompt_of env (strip r) v i d t) = Inr reply \<and>
         body resp = decode_reply env reply \<and>
         prompts (trace s') = prompts (trace s) @ [prompt_of env (strip r) v i d t])) \<and>
   (\<forall>f s1 t d. strip r \<noteq> [] \<longrightarrow> map_of (uploads req) (str ''document'') = Some f \<longrightarrow>
      filename f \<noteq> [] \<longrightarrow> save env f (path_join UPLOAD_FOLDER (filename f)) s = Inr s1 \<longrightarrow>
      threshold_of env req = Inr t \<longrightarrow>
      getlist (uploads req) (str ''valid_examples'') = [] \<longrightarrow>
      getlist (uploads req) (str ''invalid_examples'') = [] \<longrightarrow>
      extract_text env (files s1) (path_join UPLOAD_FOLDER (filename f)) = Inr d \<longrightarrow>
        prompts (trace (snd (validate env (with_requirements r req) s))) =
          prompts (trace s) @ [prompt_of env (strip r) [] [] d t])"
proof (intro conjI allI impI)
  show "validate env (with_requirements r req) s =
        (Inr (json_response 400 (verdict False [MSG_NO_REQUIREMENTS])), s)"
    if "list_all isspace r"
    using that by (simp add: validate_with_requirements strip_blank)
  show "validate env (with_requirements (strip r) req) s = validate env (with_requirements r req) s"
    by (auto simp: validate_with_requirements strip_strip split: option.splits)
  show "\<exists>v i d t.
      prompts (trace (snd (validate env (with_requirements r req) s))) = prompts (trace s) \<or>
      prompts (trace (snd (validate env (with_requirements r req) s))) =
        prompts (trace s) @ [prompt_of env (strip r) v i d t]"
    using prompts_stage [of env req "strip r" _ s]
    by (auto simp: validate_with_requirements split: option.splits)
  show "\<exists>v i d t reply. threshold_of env req = Inr t \<and>
         chat env (prompt_of env (strip r) v i d t) = Inr reply \<and>
         body resp = decode_reply env reply \<and>
         prompts (trace s') = prompts (trace s) @ [prompt_of env (strip r) v i d t]"
    if "validate env (with_requirements r req) s = (Inr resp, s')" and "status resp = 200"
    for resp s'
  proof -
    from that obtain f where "stage env req (strip r) f s = (Inr resp, s')"
      by (auto simp: validate_with_requirements json_response_def
          split: if_splits option.splits)
    from stage_ok [OF this that(2)] show ?thesis .
  qed
  show "prompts (trace (snd (validate env (with_requirements r req) s))) =
      prompts (trace s) @ [prompt_of env (strip r) [] [] d t]"
    if "strip r \<noteq> []" and "map_of (uploads req) (str ''document'') = Some f"
      and "filename f \<noteq> []"
      and saved: "save env f (path_join UPLOAD_FOLDER (filename f)) s = Inr s1"
      and "threshold_of env req = Inr t"
      and "getlist (uploads req) (str ''valid_examples'') = []"
      and "getlist (uploads req) (str ''invalid_examples'') = []"
      and "extract_text env (files s1) (path_join UPLOAD_FOLDER (filename f)) = Inr d"
    for f s1 t d
    using that prompts_save [OF saved]
    by (simp add: validate_with_requirements stage_def examples_of_getlist finish_def
        unlink_def log_def prompts_append split: sum.splits)
qed

theorem requirements_stripped_witness:
  "validate stub_env blank_requirements_request empty_store =
     (Inr (json_response 400 (verdict False [MSG_NO_REQUIREMENTS])), empty_store) \<and>
   validate stub_env
     (with_requirements (str ''  Must include a date. '')
        \<lparr>form = [(str ''precent'', str ''70'')], uploads = [(str ''document'', report_pdf)]\<rparr>)
     empty_store =
     (Inr (json_response 200 (verdict True [])),
      \<lparr>files = Map.empty,
       trace = [Saved (path_join UPLOAD_FOLDER (str ''report.pdf'')),
                Extracted (path_join UPLOAD_FOLDER (str ''report.pdf'')),
                Unlinked (path_join UPLOAD_FOLDER (str ''report.pdf'')),
                Prompted (prompt_of stub_env (str ''Must include a date.'') [] []
                  (Some (str ''Dated 2024-01-01.'')) (7 / 10))]\<rparr>) \<and>
   sublist (banner 128221 '' VALIDATION REQUIREMENTS'' @ str ''Must include a date.'' @ [10])
     (prompt_of stub_env (str ''Must include a date.'') [] []
        (Some (str ''Dated 2024-01-01.'')) (7 / 10))"
proof -
  let ?base = "\<lparr>form = [(str ''precent'', str ''70'')], uploads = [(str ''document'', report_pdf)]\<rparr>"
  have blank: "with_requirements [32, 9, 12288, 10] ?base = blank_requirements_request"
    and plain: "with_requirements (str ''Must include a date.'') ?base = plain_request"
    by (simp_all add: with_requirements_def blank_requirements_request_def plain_request_def
        sample_form_def)
  have spaces: "list_all isspace [32, 9, 12288, 10]"
    by (simp add: isspace_def)
  have stripped: "strip (str ''  Must include a date. '') = str ''Must include a date.''"
    by (simp add: strip_def isspace_def str_def)
  from requirements_stripped [of "[32, 9, 12288, 10]" stub_env ?base empty_store] blank spaces
  have rejected: "validate stub_env blank_requirements_request empty_store =
      (Inr (json_response 400 (verdict False [MSG_NO_REQUIREMENTS])), empty_store)"
    by simp
  from requirements_stripped [of "str ''  Must include a date. ''" stub_env ?base empty_store]
    plain stripped
  have same: "validate stub_env (with_requirements (str ''  Must include a date. '') ?base)
      empty_store = validate stub_env plain_request empty_store"
    by simp
  have "prompt_of stub_env (str ''Must include a date.'') [] []
      (Some (str ''Dated 2024-01-01.'')) (7 / 10) =
      prompt_head @ str ''Must include a date.'' @ prompt_valid_header @ NO_VALID_EXAMPLES @
      prompt_invalid_header @ NO_INVALID_EXAMPLES @ prompt_document_header @
      ([34] @ str ''Dated 2024-01-01.'' @ [34]) @ prompt_rules @
      float_str stub_env (7 / 10) @ prompt_tail"
    by (simp add: prompt_of_def format_field_def)
  then have layout:
    "sublist (banner 128221 '' VALIDATION REQUIREMENTS'' @ str ''Must include a date.'' @ [10])
     (prompt_of stub_env (str ''Must include a date.'') [] []
        (Some (str ''Dated 2024-01-01.'')) (7 / 10))"
    by (simp only: prompt_layout)
  show ?thesis
    unfolding same
    using rejected layout by (simp add: plain_request_def request_eval)
qed

section \<open>The threshold (C5)\<close>

text \<open>
  C5, as stated, fails: the percentage 150 gives the threshold 3/2, above 1, and the
  request is served with status 200, not rejected.
\<close>

theorem percentage_150_accepted:
  "threshold_of stub_env high_percent_request = Inr (3 / 2) \<and>
   (1 :: rat) < 3 / 2 \<and>
   fst (validate stub_env high_percent_request empty_store) =
     Inr (json_response 200 (verdict True []))"
  by (simp add: high_percent_request_def request_eval)

text \<open>
  C5, amended: whatever integer the field holds (within the range of a float), it is
  accepted and the threshold is that integer divided by 100; the threshold lies in
  [0,1] exactly when the percentage lies in [0,100].
\<close>

theorem threshold_is_percentage_over_100:
  assumes "py_int env (form_get (form req) (str ''precent'') []) = Inr n"
    and "\<bar>rat_of_int n / 100\<bar> < float_overflow"
  shows "threshold_of env req = Inr (rat_of_int n / 100) \<and>
    (0 \<le> rat_of_int n / 100 \<and> rat_of_int n / 100 \<le> 1 \<longleftrightarrow> 0 \<le> n \<and> n \<le> 100)"
proof -
  have "rat_of_int n \<le> 100 \<longleftrightarrow> n \<le> 100"
    by (metis of_int_le_iff of_int_numeral)
  with assms show ?thesis
    by (simp add: threshold_of_def truediv_def)
qed

theorem threshold_is_percentage_over_100_witness:
  "threshold_of stub_env plain_request = Inr (7 / 10) \<and>
   threshold_of stub_env high_percent_request = Inr (3 / 2)"
proof -
  have seventy: "py_int stub_env (form_get (form plain_request) (str ''precent'') []) = Inr 70"
    and high: "py_int stub_env (form_get (form high_percent_request) (str ''precent'') []) = Inr 150"
    by (simp_all add: plain_request_def high_percent_request_def request_eval)
  have small: "\<bar>rat_of_int 70 / 100\<bar> < float_overflow" "\<bar>rat_of_int 150 / 100\<bar> < float_overflow"
    by (simp_all add: float_overflow_def)
  from threshold_is_percentage_over_100 [OF seventy small(1)]
    threshold_is_percentage_over_100 [OF high small(2)]
  show ?thesis
    by simp
qed

section \<open>Staged files after a failed example (C2)\<close>

text \<open>
  C2 does not hold of the handler. With a valid example in an unsupported format,
  \<open>extract_text\<close> returns \<open>None\<close>, \<open>None + "..."\<close> raises, and the \<open>except\<close> branch of
  the example loop answers 500 at once: neither the example nor the document, both
  staged, is removed. The \<open>except\<close> branch for the document itself (line 177) does
  remove the file.
\<close>

theorem example_error_leaves_files:
  "validate stub_env bad_example_request empty_store =
     (Inr (json_response 500 (verdict False [MSG_VALID_EXAMPLE @ exn_str none_plus_str])),
      \<lparr>files = [path_join UPLOAD_FOLDER (str ''report.pdf'') \<mapsto> content report_pdf,
                path_join UPLOAD_FOLDER (str ''notes.txt'') \<mapsto> content notes_txt],
       trace = [Saved (path_join UPLOAD_FOLDER (str ''report.pdf'')),
                Saved (path_join UPLOAD_FOLDER (str ''notes.txt'')),
                Extracted (path_join UPLOAD_FOLDER (str ''notes.txt''))]\<rparr>)"
  by (simp add: bad_example_request_def request_eval)

section \<open>A document in an unsupported format (C3)\<close>

text \<open>
  C3 does not hold of the handler. For a document in an unsupported format
  \<open>extract_text\<close> returns \<open>None\<close> without raising, so the \<open>except\<close> branch of line 176
  is not taken: the file is removed, the prompt is built with the text \<open>None\<close> in the
  place of the document, and the answer is the verdict of the model with status 200.
  In the example loop the same format ends in a 500 response.
\<close>

theorem unsupported_document_accepted:
  "validate stub_env txt_request empty_store =
     (Inr (json_response 200 (verdict True [])),
      \<lparr>files = Map.empty,
       trace = [Saved (path_join UPLOAD_FOLDER (str ''notes.txt'')),
                Extracted (path_join UPLOAD_FOLDER (str ''notes.txt'')),
                Unlinked (path_join UPLOAD_FOLDER (str ''notes.txt'')),
                Prompted (prompt_of stub_env (str ''Must include a date.'') [] [] None (7 / 10))]\<rparr>) \<and>
   format_field None = str ''None''"
  by (simp add: txt_request_def request_eval format_field_def)

section \<open>A request without a percentage (C4)\<close>

text \<open>
  C4 does not hold of the handler. Without the field \<open>precent\<close> the handler evaluates
  \<open>int("")\<close> outside every \<open>try\<close>: the \<open>ValueError\<close> leaves the handler, no JSON
  response is made, and the staged document stays in the upload directory.
\<close>

theorem missing_percentage_escapes:
  "validate stub_env no_percent_request empty_store =
     (Inl (Exn ''ValueError'' (str ''invalid literal for int() with base 10: '')),
      \<lparr>files = [path_join UPLOAD_FOLDER (str ''report.pdf'') \<mapsto> content report_pdf],
       trace = [Saved (path_join UPLOAD_FOLDER (str ''report.pdf''))]\<rparr>)"
  by (simp add: no_percent_request_def request_eval)

end
